theory Spec2Isabelle
  imports Complex_Main "HOL-Library.Sublist" "HOL-Library.AList"
begin

section \<open>Python strings\<close>

text \<open>
  A Python \<open>str\<close> is a sequence of Unicode code points; it is modelled as a list of
  natural numbers, one per code point. \<open>u\<close> turns an ASCII literal into such a list.
\<close>

type_synonym pystr = "nat list"

definition u :: "string \<Rightarrow> pystr" where
  "u s = map of_char s"

text \<open>
  \<open>str.isspace\<close> for one character: the code points Python's \<open>str.strip()\<close> removes.
\<close>

definition py_isspace :: "nat \<Rightarrow> bool" where
  "py_isspace c \<longleftrightarrow>
     (9 \<le> c \<and> c \<le> 13) \<or> (28 \<le> c \<and> c \<le> 32) \<or> c = 133 \<or> c = 160 \<or> c = 5760 \<or>
     (8192 \<le> c \<and> c \<le> 8202) \<or> c = 8232 \<or> c = 8233 \<or> c = 8239 \<or> c = 8287 \<or> c = 12288"

definition lstrip :: "pystr \<Rightarrow> pystr" where
  "lstrip s = dropWhile py_isspace s"

definition rstrip :: "pystr \<Rightarrow> pystr" where
  "rstrip s = rev (dropWhile py_isspace (rev s))"

definition strip :: "pystr \<Rightarrow> pystr" where
  "strip s = rstrip (lstrip s)"

text \<open>
  \<open>str.lower()\<close>, one character at a time. The letters \<open>A\<close> to \<open>Z\<close> and the Kelvin sign
  (U+212A) are the only characters whose lower-case form is ASCII; every other character
  is left as it is, which agrees with Python wherever the result is compared with an
  ASCII literal, the only use the program makes of \<open>lower()\<close>.
\<close>

definition lower_char :: "nat \<Rightarrow> nat" where
  "lower_char c = (if 65 \<le> c \<and> c \<le> 90 then c + 32 else if c = 8490 then 107 else c)"

definition lower :: "pystr \<Rightarrow> pystr" where
  "lower s = map lower_char s"

text \<open>\<open>s.replace(old, new)\<close>: every non-overlapping occurrence, scanning from the left.\<close>

function replace :: "pystr \<Rightarrow> pystr \<Rightarrow> pystr \<Rightarrow> pystr" where
  "replace [] old new = (if old = [] then new else [])"
| "replace (c # s) old new =
     (if old = [] then new @ c # replace s old new
      else if prefix old (c # s) then new @ replace (drop (length old) (c # s)) old new
      else c # replace s old new)"
  by pat_completeness auto
termination
  by (relation "measure (\<lambda>(s, old, new). length s)") auto

definition endswith :: "pystr \<Rightarrow> pystr \<Rightarrow> bool" where
  "endswith s t = suffix t s"

section \<open>Python floats\<close>

text \<open>
  A float is a binary64 value: a finite number with its sign bit (\<open>True\<close> for minus) and
  its magnitude, an infinity with its sign, or NaN.
\<close>

datatype pyfloat = Num bool rat | Infty bool | NaN

definition pow2 :: "int \<Rightarrow> rat" where
  "pow2 k = (if 0 \<le> k then 2 ^ nat k else 1 / 2 ^ nat (- k))"

fun ilog2 :: "nat \<Rightarrow> nat" where
  "ilog2 n = (if n < 2 then 0 else Suc (ilog2 (n div 2)))"

declare ilog2.simps [simp del]

text \<open>
  \<open>floor_log2 q\<close> is the exponent \<open>e\<close> with \<open>2^e \<le> q < 2^(e+1)\<close>, for \<open>q > 0\<close>: read off
  the integer part of \<open>q\<close> when \<open>q \<ge> 1\<close>, and off the reciprocal otherwise.
\<close>

definition floor_log2 :: "rat \<Rightarrow> int" where
  "floor_log2 q =
     (if 1 \<le> q then int (ilog2 (nat \<lfloor>q\<rfloor>))
      else - int (Suc (ilog2 (nat \<lceil>1 / q\<rceil> - 1))))"

definition round_half_even :: "rat \<Rightarrow> int" where
  "round_half_even q =
     (let f = \<lfloor>q\<rfloor>; r = q - of_int f
      in if r < 1 / 2 then f else if 1 / 2 < r then f + 1 else if even f then f else f + 1)"

text \<open>
  The binary64 value nearest to a magnitude \<open>q \<ge> 0\<close>, ties to even: 53 significant bits,
  exponents from \<open>-1022\<close> (below it the subnormal spacing \<open>2^-1074\<close>), overflow to infinity.
\<close>

definition round_double :: "bool \<Rightarrow> rat \<Rightarrow> pyfloat" where
  "round_double neg q =
     (if q = 0 then Num neg 0
      else let e = max (floor_log2 q) (- 1022);
               ulp = pow2 (e - 52);
               r = of_int (round_half_even (q / ulp)) * ulp
           in if pow2 1024 \<le> r then Infty neg else Num neg r)"

definition is_digit :: "nat \<Rightarrow> bool" where
  "is_digit c \<longleftrightarrow> 48 \<le> c \<and> c \<le> 57"

definition digits_value :: "pystr \<Rightarrow> nat" where
  "digits_value ds = foldl (\<lambda>acc c. 10 * acc + (c - 48)) 0 ds"

text \<open>An optional sign: the sign bit and the rest of the text.\<close>

fun split_sign :: "pystr \<Rightarrow> bool \<times> pystr" where
  "split_sign [] = (False, [])"
| "split_sign (c # s) = (if c = 45 then (True, s) else if c = 43 then (False, s) else (False, c # s))"

text \<open>
  The decimal grammar of \<open>float()\<close>: digits, an optional point and digits (at least one
  digit in all), an optional exponent; the result is the magnitude as an exact rational.
\<close>

definition parse_exponent :: "pystr \<Rightarrow> int option" where
  "parse_exponent s =
     (case s of
        [] \<Rightarrow> Some 0
      | c # t \<Rightarrow>
          if c = 101 \<or> c = 69 then
            (let (neg, ds) = split_sign t
             in if ds \<noteq> [] \<and> list_all is_digit ds
                then Some (if neg then - int (digits_value ds) else int (digits_value ds))
                else None)
          else None)"

definition parse_decimal :: "pystr \<Rightarrow> rat option" where
  "parse_decimal s =
     (let ip = takeWhile is_digit s;
          r1 = dropWhile is_digit s;
          (fp, r2) = (case r1 of
                        [] \<Rightarrow> ([], [])
                      | c # t \<Rightarrow> if c = 46 then (takeWhile is_digit t, dropWhile is_digit t)
                                 else ([], r1))
      in if ip = [] \<and> fp = [] then None
         else case parse_exponent r2 of
                None \<Rightarrow> None
              | Some e \<Rightarrow>
                  (let k = e - int (length fp); m = of_nat (digits_value (ip @ fp))
                   in Some (if 0 \<le> k then m * 10 ^ nat k else m / 10 ^ nat (- k))))"

text \<open>
  Underscores may stand between two digits; \<open>float()\<close> checks that and removes them.
  The first argument is the previous character (0 at the start).
\<close>

fun strip_underscores :: "nat \<Rightarrow> pystr \<Rightarrow> pystr option" where
  "strip_underscores prev [] = (if prev = 95 then None else Some [])"
| "strip_underscores prev (c # s) =
     (if c = 95 then (if is_digit prev then strip_underscores c s else None)
      else if prev = 95 \<and> \<not> is_digit c then None
      else map_option ((#) c) (strip_underscores c s))"

text \<open>
  White space as \<open>float()\<close> trims it: the ASCII blanks, and every non-ASCII space
  character (the separators 28 to 31 are not trimmed).
\<close>

definition float_space :: "nat \<Rightarrow> bool" where
  "float_space c \<longleftrightarrow> (9 \<le> c \<and> c \<le> 13) \<or> c = 32 \<or> (128 \<le> c \<and> py_isspace c)"

definition float_strip :: "pystr \<Rightarrow> pystr" where
  "float_strip s = rev (dropWhile float_space (rev (dropWhile float_space s)))"

text \<open>
  \<open>float(s)\<close> for a string \<open>s\<close>; \<open>None\<close> is the \<open>ValueError\<close>. The digits are the ASCII
  digits (Python also reads the decimal digits of other scripts).
\<close>

definition py_float :: "pystr \<Rightarrow> pyfloat option" where
  "py_float s =
     (case (if 95 \<in> set s then strip_underscores 0 s else Some s) of
        None \<Rightarrow> None
      | Some s1 \<Rightarrow>
          (let (neg, body) = split_sign (float_strip s1)
           in if lower body = u ''inf'' \<or> lower body = u ''infinity'' then Some (Infty neg)
              else if lower body = u ''nan'' then Some NaN
              else map_option (round_double neg) (parse_decimal body)))"

text \<open>The comparison \<open>x >= 0\<close>: false for NaN, true for both zeros.\<close>

fun ge_zero :: "pyfloat \<Rightarrow> bool" where
  "ge_zero NaN = False"
| "ge_zero (Infty neg) = (\<not> neg)"
| "ge_zero (Num neg m) = (\<not> neg \<or> m = 0)"

text \<open>The comparison \<open>x < 0\<close>, the "strictly negative" of the specification.\<close>

fun lt_zero :: "pyfloat \<Rightarrow> bool" where
  "lt_zero NaN = False"
| "lt_zero (Infty neg) = neg"
| "lt_zero (Num neg m) = (neg \<and> m \<noteq> 0)"

fun digits :: "nat \<Rightarrow> pystr" where
  "digits n = (if n < 10 then [48 + n] else digits (n div 10) @ [48 + n mod 10])"

declare digits.simps [simp del]

text \<open>
  \<open>f"{x:.2f}"\<close>: the exact binary value rounded to hundredths, ties to even, with the
  sign bit kept (so \<open>-0.00\<close> exists); \<open>inf\<close>, \<open>-inf\<close> and \<open>nan\<close> for the others.
\<close>

fun format_2f :: "pyfloat \<Rightarrow> pystr" where
  "format_2f NaN = u ''nan''"
| "format_2f (Infty neg) = (if neg then u ''-inf'' else u ''inf'')"
| "format_2f (Num neg m) =
     (let n = nat (round_half_even (m * 100))
      in (if neg then u ''-'' else []) @ digits (n div 100) @ u ''.'' @
         [48 + (n mod 100) div 10, 48 + n mod 10])"

section \<open>Cells\<close>

text \<open>
  A cell of the loaded table is either missing (\<open>pd.isna\<close> holds; pandas stores the float
  NaN there) or a value, which is represented by its text \<open>str(val)\<close>.
\<close>

datatype cell = NA | Val pystr

fun py_str :: "cell \<Rightarrow> pystr" where
  "py_str NA = u ''nan''"
| "py_str (Val s) = s"

fun notna :: "cell \<Rightarrow> bool" where
  "notna NA = False"
| "notna (Val s) = True"

section \<open>Amount and transaction type\<close>

definition clean_val :: "cell \<Rightarrow> pystr" where
  "clean_val val =
     strip (replace (replace (replace (replace (py_str val) (u ''$'') []) (u '','') [])
       [163] []) [8364] [])"

definition format_amount :: "cell \<Rightarrow> pystr" where
  "format_amount val =
     (if clean_val val = [] \<or> lower (clean_val val) = u ''nan'' then u ''0.00''
      else case py_float (clean_val val) of
             Some x \<Rightarrow> format_2f x
           | None \<Rightarrow> u ''0.00'')"

definition determine_transaction_type :: "pystr \<Rightarrow> pystr" where
  "determine_transaction_type balance_str =
     (case py_float balance_str of
        Some balance_val \<Rightarrow> if ge_zero balance_val then u ''INV'' else u ''CRD''
      | None \<Rightarrow> u ''INV'')"

section \<open>Tables\<close>

text \<open>
  The loaded table (\<open>df\<close>): its headers in file order and its rows; a row gives the cell
  under each header. The table the program builds (\<open>output\<close>) is kept the way pandas
  holds it: the index labels, and the columns in the order they were first assigned.
\<close>

record dataframe =
  columns :: "pystr list"
  rows :: "(pystr \<Rightarrow> cell) list"

record frame =
  index :: "nat list"
  data :: "(pystr \<times> cell list) list"

datatype error = UnsupportedFormat | EmptyInput | MissingColumns "pystr list" | KeyError

text \<open>\<open>df.empty\<close>: no rows or no columns.\<close>

definition df_empty :: "dataframe \<Rightarrow> bool" where
  "df_empty df \<longleftrightarrow> rows df = [] \<or> columns df = []"

text \<open>\<open>df[col]\<close>: the cells of one column, top to bottom.\<close>

definition df_col :: "dataframe \<Rightarrow> pystr \<Rightarrow> cell list" where
  "df_col df col = map (\<lambda>row. row col) (rows df)"

definition empty_frame :: frame where
  "empty_frame = \<lparr>index = [], data = []\<rparr>"

text \<open>
  \<open>output[name] = values\<close>: a new column goes to the end, an existing one is replaced in
  place; the first column gives the table its index \<open>0, 1, ...\<close> (every series assigned
  here carries that same index, so the values line up by position).
\<close>

definition set_col :: "pystr \<Rightarrow> cell list \<Rightarrow> frame \<Rightarrow> frame" where
  "set_col name vals fr =
     \<lparr>index = (if data fr = [] then [0..<length vals] else index fr),
      data = AList.update name vals (data fr)\<rparr>"

text \<open>\<open>output[name]\<close>, for a column assigned before.\<close>

definition get_col :: "frame \<Rightarrow> pystr \<Rightarrow> cell list" where
  "get_col fr name = (case map_of (data fr) name of Some vals \<Rightarrow> vals | None \<Rightarrow> [])"

text \<open>\<open>output[mask]\<close>: the rows whose flag is true, labels kept.\<close>

definition keep :: "bool list \<Rightarrow> 'a list \<Rightarrow> 'a list" where
  "keep flags xs = map snd (filter fst (zip flags xs))"

definition select_rows :: "bool list \<Rightarrow> frame \<Rightarrow> frame" where
  "select_rows flags fr =
     \<lparr>index = keep flags (index fr),
      data = map (\<lambda>(name, vals). (name, keep flags vals)) (data fr)\<rparr>"

text \<open>\<open>.reset_index(drop=True)\<close>: the labels become \<open>0, 1, ...\<close> again.\<close>

definition reset_index :: "frame \<Rightarrow> frame" where
  "reset_index fr = fr\<lparr>index := [0..<length (index fr)]\<rparr>"

text \<open>\<open>output[[names]]\<close>: the named columns in the order asked; a missing name raises.\<close>

definition select_columns :: "pystr list \<Rightarrow> frame \<Rightarrow> error + frame" where
  "select_columns names fr =
     (if list_all (\<lambda>name. map_of (data fr) name \<noteq> None) names
      then Inr (fr\<lparr>data := map (\<lambda>name. (name, get_col fr name)) names\<rparr>)
      else Inl KeyError)"

section \<open>Column resolver\<close>

definition required_cols_init :: "(pystr \<times> pystr option) list" where
  "required_cols_init =
     [(u ''customer'', None), (u ''order_number'', None), (u ''reference'', None),
      (u ''date'', None), (u ''amount'', None)]"

text \<open>The body of the loop over \<open>df.columns\<close>: an assignment to the dictionary.\<close>

definition match_column :: "(pystr \<times> pystr option) list \<Rightarrow> pystr \<Rightarrow> (pystr \<times> pystr option) list" where
  "match_column required_cols col =
     (let col_lower = strip (lower col)
      in if u ''customer'' = col_lower then AList.update (u ''customer'') (Some col) required_cols
         else if u ''order nbr.'' = col_lower then AList.update (u ''order_number'') (Some col) required_cols
         else if u ''reference nbr.'' = col_lower then AList.update (u ''reference'') (Some col) required_cols
         else if u ''date'' = col_lower then AList.update (u ''date'') (Some col) required_cols
         else if u ''amount'' = col_lower then AList.update (u ''amount'') (Some col) required_cols
         else required_cols)"

fun scan_columns :: "(pystr \<times> pystr option) list \<Rightarrow> pystr list \<Rightarrow> (pystr \<times> pystr option) list" where
  "scan_columns required_cols [] = required_cols"
| "scan_columns required_cols (col # cols) = scan_columns (match_column required_cols col) cols"

definition missing_cols :: "(pystr \<times> pystr option) list \<Rightarrow> pystr list" where
  "missing_cols required_cols = map fst (filter (\<lambda>(k, v). v = None) required_cols)"

text \<open>
  \<open>required_cols[k]\<close>, read after the missing-columns check, when every key is bound to a
  header.
\<close>

definition col_name :: "(pystr \<times> pystr option) list \<Rightarrow> pystr \<Rightarrow> pystr" where
  "col_name required_cols k = (case map_of required_cols k of Some (Some col) \<Rightarrow> col | _ \<Rightarrow> [])"

section \<open>Document number\<close>

definition create_document_number :: "(pystr \<times> pystr option) list \<Rightarrow> (pystr \<Rightarrow> cell) \<Rightarrow> pystr" where
  "create_document_number required_cols row =
     (let order_num = (if notna (row (col_name required_cols (u ''order_number'')))
                       then py_str (row (col_name required_cols (u ''order_number''))) else []);
          reference = (if notna (row (col_name required_cols (u ''reference'')))
                       then py_str (row (col_name required_cols (u ''reference''))) else [])
      in u ''O_'' @ order_num @ u ''_'' @ reference)"

section \<open>Document date\<close>

text \<open>
  The date routines belong to Python's \<open>datetime\<close> and to pandas, not to this program;
  they are parameters of the model. \<open>strptime text fmt\<close> is \<open>datetime.strptime\<close>,
  \<open>strftime d fmt\<close> is \<open>d.strftime(fmt)\<close>, with \<open>None\<close> for an exception;
  \<open>to_datetime val\<close> is \<open>pd.to_datetime(val, dayfirst=True, errors="coerce")\<close>, with
  \<open>None\<close> for an exception or for \<open>NaT\<close>.
\<close>

record 'd datelib =
  strptime :: "pystr \<Rightarrow> pystr \<Rightarrow> 'd option"
  strftime :: "'d \<Rightarrow> pystr \<Rightarrow> pystr option"
  to_datetime :: "cell \<Rightarrow> 'd option"

definition date_formats :: "pystr list" where
  "date_formats =
     [u ''%d/%m/%Y'', u ''%Y-%m-%d'', u ''%d-%m-%Y'', u ''%m/%d/%Y'', u ''%Y/%m/%d'',
      u ''%d-%b-%Y'', u ''%d %b %Y'', u ''%Y-%m-%d %H:%M:%S'', u ''%d/%m/%Y %H:%M:%S'']"

text \<open>The loop over the formats: the first one whose \<open>try\<close> block completes returns.\<close>

fun try_formats :: "'d datelib \<Rightarrow> pystr \<Rightarrow> pystr list \<Rightarrow> pystr option" where
  "try_formats lib text [] = None"
| "try_formats lib text (fmt # fmts) =
     (case Option.bind (strptime lib text fmt) (\<lambda>d. strftime lib d (u ''%d/%m/%Y'')) of
        Some s \<Rightarrow> Some s
      | None \<Rightarrow> try_formats lib text fmts)"

definition format_date :: "'d datelib \<Rightarrow> cell \<Rightarrow> pystr" where
  "format_date lib val =
     (if \<not> notna val \<or> strip (py_str val) = [] then []
      else case try_formats lib (py_str val) date_formats of
             Some s \<Rightarrow> s
           | None \<Rightarrow>
               (case Option.bind (to_datetime lib val) (\<lambda>d. strftime lib d (u ''%d/%m/%Y'')) of
                  Some s \<Rightarrow> s
                | None \<Rightarrow> py_str val))"

section \<open>The pipeline\<close>

text \<open>
  \<open>process_file\<close>, given the file name and the table pandas read from the file. \<open>Inl\<close> is
  an error shown to the user, after which the function returns \<open>None\<close>.
\<close>

definition row_mask :: "frame \<Rightarrow> bool list" where
  "row_mask output =
     map (\<lambda>(dr, dn). notna dr \<and> strip (py_str dr) \<noteq> [] \<and> notna dn \<and> strip (py_str dn) \<noteq> [])
       (zip (get_col output (u ''Debtor Reference'')) (get_col output (u ''Document Number'')))"

definition output_columns :: "pystr list" where
  "output_columns =
     [u ''Debtor Reference'', u ''Transaction Type'', u ''Document Number'',
      u ''Document Date'', u ''Document Balance'']"

definition process_file :: "'d datelib \<Rightarrow> pystr \<Rightarrow> dataframe \<Rightarrow> error + frame" where
  "process_file lib name df =
     (if \<not> (endswith (lower name) (u ''.csv'') \<or> endswith (lower name) (u ''.xls'') \<or>
             endswith (lower name) (u ''.xlsx''))
      then Inl UnsupportedFormat
      else if df_empty df then Inl EmptyInput
      else
        let required_cols = scan_columns required_cols_init (columns df)
        in if missing_cols required_cols \<noteq> [] then Inl (MissingColumns (missing_cols required_cols))
           else
             let output = empty_frame;
                 output = set_col (u ''Debtor Reference'')
                            (df_col df (col_name required_cols (u ''customer''))) output;
                 output = set_col (u ''Document Number'')
                            (map (\<lambda>row. Val (create_document_number required_cols row)) (rows df)) output;
                 output = set_col (u ''Document Date'')
                            (map (\<lambda>val. Val (format_date lib val))
                               (df_col df (col_name required_cols (u ''date'')))) output;
                 output = set_col (u ''Document Balance'')
                            (map (\<lambda>val. Val (format_amount val))
                               (df_col df (col_name required_cols (u ''amount'')))) output;
                 output = set_col (u ''Transaction Type'')
                            (map (\<lambda>val. Val (determine_transaction_type (py_str val)))
                               (get_col output (u ''Document Balance''))) output;
                 output = reset_index (select_rows (row_mask output) output)
             in select_columns output_columns output)"

section \<open>Notions of the specification\<close>

text \<open>The shape \<open>-?\d+\.\d{2}\<close> of a Document Balance, matched against the whole string.\<close>

definition balance_pattern :: "pystr \<Rightarrow> bool" where
  "balance_pattern s =
     (let t = (case s of [] \<Rightarrow> [] | c # r \<Rightarrow> if c = 45 then r else s)
      in takeWhile is_digit t \<noteq> [] \<and>
         (case dropWhile is_digit t of
            [p, a, b] \<Rightarrow> p = 46 \<and> is_digit a \<and> is_digit b
          | _ \<Rightarrow> False))"

text \<open>The five semantic keys, in the order of the dictionary, each with its alias.\<close>

definition key_alias :: "(pystr \<times> pystr) list" where
  "key_alias =
     [(u ''customer'', u ''customer''), (u ''order_number'', u ''order nbr.''),
      (u ''reference'', u ''reference nbr.''), (u ''date'', u ''date''),
      (u ''amount'', u ''amount'')]"

text \<open>A header matches an alias when its lower-case, trimmed form equals it.\<close>

definition matches :: "pystr \<Rightarrow> pystr \<Rightarrow> bool" where
  "matches alias col \<longleftrightarrow> strip (lower col) = alias"

text \<open>The text a source cell contributes to the Document Number: nothing when missing.\<close>

fun cell_text :: "cell \<Rightarrow> pystr" where
  "cell_text NA = []"
| "cell_text (Val s) = s"

text \<open>A cell is blank when it is missing or its text is empty after trimming.\<close>

definition blank :: "cell \<Rightarrow> bool" where
  "blank val \<longleftrightarrow> \<not> notna val \<or> strip (py_str val) = []"

text \<open>
  The Date Normalizer as the specification words it: the nine formats in their order, the
  rendering of the first that succeeds, then the general day-first parser, then the text.
\<close>

definition spec_date_formats :: "pystr list" where
  "spec_date_formats =
     [u ''%d/%m/%Y'', u ''%Y-%m-%d'', u ''%d-%m-%Y'', u ''%m/%d/%Y'', u ''%Y/%m/%d'',
      u ''%d-%b-%Y'', u ''%d %b %Y'', u ''%Y-%m-%d %H:%M:%S'', u ''%d/%m/%Y %H:%M:%S'']"

definition rendered :: "'d datelib \<Rightarrow> pystr \<Rightarrow> pystr \<Rightarrow> pystr option" where
  "rendered lib text fmt = Option.bind (strptime lib text fmt) (\<lambda>d. strftime lib d (u ''%d/%m/%Y''))"

definition spec_format_date :: "'d datelib \<Rightarrow> cell \<Rightarrow> pystr" where
  "spec_format_date lib val =
     (if blank val then []
      else case List.find (\<lambda>fmt. rendered lib (py_str val) fmt \<noteq> None) spec_date_formats of
             Some fmt \<Rightarrow> the (rendered lib (py_str val) fmt)
           | None \<Rightarrow>
               (case Option.bind (to_datetime lib val) (\<lambda>d. strftime lib d (u ''%d/%m/%Y'')) of
                  Some s \<Rightarrow> s
                | None \<Rightarrow> py_str val))"

text \<open>The key an alias belongs to.\<close>

definition alias_key :: "pystr \<Rightarrow> pystr option" where
  "alias_key x = map_of (map (\<lambda>(k, a). (a, k)) key_alias) x"

text \<open>The keys no header matches, in the order of the dictionary.\<close>

definition unresolved :: "pystr list \<Rightarrow> pystr list" where
  "unresolved cols =
     map fst (filter (\<lambda>(k, a). \<not> (\<exists>col \<in> set cols. matches a col)) key_alias)"

text \<open>
  The rows the Row Filter lets through, and the output row made from an input row, its
  fields in the output order; \<open>frame_rows\<close> reads a built table row by row.
\<close>

definition kept_rows :: "dataframe \<Rightarrow> (pystr \<Rightarrow> cell) list" where
  "kept_rows df =
     filter (\<lambda>row. \<not> blank (row (col_name (scan_columns required_cols_init (columns df)) (u ''customer''))))
       (rows df)"

definition output_row :: "'d datelib \<Rightarrow> (pystr \<times> pystr option) list \<Rightarrow> (pystr \<Rightarrow> cell) \<Rightarrow> cell list" where
  "output_row lib rc row =
     [row (col_name rc (u ''customer'')),
      Val (determine_transaction_type (format_amount (row (col_name rc (u ''amount''))))),
      Val (create_document_number rc row),
      Val (format_date lib (row (col_name rc (u ''date'')))),
      Val (format_amount (row (col_name rc (u ''amount''))))]"

definition frame_rows :: "frame \<Rightarrow> cell list list" where
  "frame_rows fr = map (\<lambda>i. map (\<lambda>(name, vals). vals ! i) (data fr)) [0..<length (index fr)]"

section \<open>Example inputs\<close>

text \<open>
  A row given by its cells (a header without a cell reads as missing), a small stand-in for
  the date routines that knows one date in two formats, and two tables: one with the five
  headers, and one that lacks the date and amount columns.
\<close>

definition row_of :: "(pystr \<times> cell) list \<Rightarrow> pystr \<Rightarrow> cell" where
  "row_of cells col = (case map_of cells col of Some val \<Rightarrow> val | None \<Rightarrow> NA)"

definition example_lib :: "(nat \<times> nat \<times> nat) datelib" where
  "example_lib =
     \<lparr>strptime = (\<lambda>text fmt.
        if fmt = u ''%d/%m/%Y'' \<and> text = u ''01/02/2023'' then Some (2023, 2, 1)
        else if fmt = u ''%Y-%m-%d'' \<and> text = u ''2023-02-01'' then Some (2023, 2, 1)
        else None),
      strftime = (\<lambda>d fmt.
        if fmt = u ''%d/%m/%Y'' \<and> d = (2023, 2, 1) then Some (u ''01/02/2023'') else None),
      to_datetime = (\<lambda>val. if val = Val (u ''1 Feb 2023'') then Some (2023, 2, 1) else None)\<rparr>"

definition example_columns :: "pystr list" where
  "example_columns = [u ''Customer'', u ''Order Nbr.'', u ''Reference Nbr.'', u ''Date'', u ''Amount'']"

definition example_df :: dataframe where
  "example_df =
     \<lparr>columns = example_columns,
      rows = [row_of [(u ''Customer'', Val (u ''Acme'')), (u ''Order Nbr.'', Val (u ''100'')),
                      (u ''Reference Nbr.'', Val (u ''R1'')), (u ''Date'', Val (u ''01/02/2023'')),
                      (u ''Amount'', Val (u ''$1,200.50''))],
              row_of [(u ''Customer'', Val (u ''  '')), (u ''Order Nbr.'', Val (u ''101'')),
                      (u ''Reference Nbr.'', Val (u ''R2'')), (u ''Date'', Val (u ''2023-02-01'')),
                      (u ''Amount'', Val (u ''7''))],
              row_of [(u ''Customer'', Val (u ''Bolt'')), (u ''Order Nbr.'', NA),
                      (u ''Reference Nbr.'', NA), (u ''Date'', NA),
                      (u ''Amount'', Val (u ''-50''))]]\<rparr>"

definition two_missing_df :: dataframe where
  "two_missing_df =
     \<lparr>columns = [u ''Customer'', u ''Order Nbr.'', u ''Reference Nbr.''],
      rows = [row_of [(u ''Customer'', Val (u ''Acme'')), (u ''Order Nbr.'', Val (u ''100'')),
                      (u ''Reference Nbr.'', Val (u ''R1''))]]\<rparr>"

section \<open>Evaluation\<close>

lemma floor_rat_numeral_div: "\<lfloor>numeral a / numeral b :: rat\<rfloor> = numeral a div numeral b"
  using floor_divide_of_int_eq [of "numeral a" "numeral b", where ?'a = rat] by simp

lemma floor_rat_one_div: "\<lfloor>1 / numeral b :: rat\<rfloor> = 1 div numeral b"
  using floor_divide_of_int_eq [of 1 "numeral b", where ?'a = rat] by simp

lemma ceiling_rat_numeral_div: "\<lceil>numeral a / numeral b :: rat\<rceil> = - (- numeral a div numeral b)"
  using floor_divide_of_int_eq [of "- numeral a" "numeral b", where ?'a = rat]
  by (simp add: ceiling_def)

lemma ceiling_rat_one_div: "\<lceil>1 / numeral b :: rat\<rceil> = - (- 1 div numeral b)"
  using floor_divide_of_int_eq [of "- 1" "numeral b", where ?'a = rat]
  by (simp add: ceiling_def)

lemmas str_defs = u_def lower_def lower_char_def strip_def lstrip_def rstrip_def py_isspace_def

lemmas float_defs = py_float_def float_strip_def float_space_def parse_decimal_def
  parse_exponent_def is_digit_def digits_value_def round_double_def floor_log2_def
  round_half_even_def pow2_def ilog2.simps digits.simps Let_def
  floor_rat_numeral_div floor_rat_one_div ceiling_rat_numeral_div ceiling_rat_one_div

lemmas amount_defs = format_amount_def clean_val_def determine_transaction_type_def

section \<open>The amount normalizer and the classifier\<close>

lemma py_float_empty: "py_float [] = None"
  by (simp add: str_defs float_defs)

lemma lower_nan_is_nan:
  assumes "lower s = u ''nan''"
  shows "py_float s = Some NaN"
proof -
  from assms obtain a b c where s: "s = [a, b, c]"
    and a: "lower_char a = 110" and b: "lower_char b = 97" and c: "lower_char c = 110"
    by (auto simp: lower_def u_def)
  have "a = 110 \<or> a = 78" using a by (auto simp: lower_char_def split: if_splits)
  moreover have "b = 97 \<or> b = 65" using b by (auto simp: lower_char_def split: if_splits)
  moreover have "c = 110 \<or> c = 78" using c by (auto simp: lower_char_def split: if_splits)
  ultimately show ?thesis
    unfolding s by (elim disjE) (simp_all add: str_defs float_defs)
qed

lemma round_half_even_small:
  assumes "0 \<le> q" and "q < 1 / 2"
  shows "round_half_even q = 0"
proof -
  from assms have "\<lfloor>q\<rfloor> = 0" by (simp add: floor_eq_iff)
  with assms show ?thesis by (simp add: round_half_even_def)
qed

lemma format_2f_below_half_cent:
  assumes "0 < m" and "m < 1 / 200"
  shows "format_2f (Num True m) = u ''-0.00''"
proof -
  have "round_half_even (m * 100) = 0"
    using assms by (intro round_half_even_small) auto
  then show ?thesis by (simp add: digits.simps u_def)
qed

lemma negative_zero_is_invoice:
  "py_float (u ''-0.00'') = Some (Num True 0) \<and> determine_transaction_type (u ''-0.00'') = u ''INV''"
  by (simp add: amount_defs str_defs float_defs)

text \<open>
  C1. The Document Balance is not always of the shape \<open>-?\d+\.\d{2}\<close>: the amount cell
  \<open>inf\<close> parses as a float, so neither the guard nor the handler turns it into \<open>0.00\<close>,
  and it is formatted as \<open>inf\<close>.
\<close>

theorem format_amount_inf_breaks_pattern:
  "format_amount (Val (u ''inf'')) = u ''inf'' \<and>
   \<not> balance_pattern (format_amount (Val (u ''inf''))) \<and>
   format_amount (Val (u ''inf'')) \<noteq> u ''0.00''"
  by (simp add: amount_defs str_defs float_defs balance_pattern_def)

text \<open>
  C2. The amount cell \<open>+nan\<close> gives the Document Balance \<open>nan\<close>; its parse is NaN, which is
  not strictly negative, and yet the Transaction Type of that row is \<open>CRD\<close>.
\<close>

theorem transaction_type_of_nan_balance:
  "format_amount (Val (u ''+nan'')) = u ''nan'' \<and>
   py_float (format_amount (Val (u ''+nan''))) = Some NaN \<and>
   \<not> lt_zero NaN \<and>
   determine_transaction_type (format_amount (Val (u ''+nan''))) = u ''CRD''"
  by (simp add: amount_defs str_defs float_defs)

text \<open>
  C9. The amount normalizer is not idempotent on the output \<open>nan\<close>, which it produces for
  the cell \<open>+nan\<close>: normalizing \<open>nan\<close> again gives \<open>0.00\<close>.
\<close>

theorem format_amount_nan_not_idempotent:
  "format_amount (Val (u ''+nan'')) = u ''nan'' \<and>
   format_amount (Val (format_amount (Val (u ''+nan'')))) = u ''0.00'' \<and>
   format_amount (Val (format_amount (Val (u ''+nan'')))) \<noteq> format_amount (Val (u ''+nan''))"
  by (simp add: amount_defs str_defs float_defs)

text \<open>The instance the specification names: \<open>12.50\<close> is normalized to itself.\<close>

lemma format_amount_12_50: "format_amount (Val (u ''12.50'')) = u ''12.50''"
  by (simp add: amount_defs str_defs float_defs)

text \<open>
  C10. When the float read from an amount cell is strictly negative and greater than
  \<open>-0.005\<close>, the Document Balance is \<open>-0.00\<close>; that string parses to negative zero, which is
  not strictly below zero, and the Transaction Type is \<open>INV\<close>.
\<close>

theorem small_negative_amount_is_invoice:
  assumes "py_float (clean_val val) = Some (Num True m)" and "0 < m" and "m < 1 / 200"
  shows "format_amount val = u ''-0.00'' \<and>
         py_float (format_amount val) = Some (Num True 0) \<and>
         \<not> lt_zero (Num True 0) \<and>
         determine_transaction_type (format_amount val) = u ''INV''"
proof -
  have ne: "clean_val val \<noteq> []"
    using assms(1) py_float_empty by auto
  have nn: "lower (clean_val val) \<noteq> u ''nan''"
    using assms(1) lower_nan_is_nan by fastforce
  have "format_amount val = format_2f (Num True m)"
    using ne nn assms(1) by (simp add: format_amount_def)
  then have "format_amount val = u ''-0.00''"
    using format_2f_below_half_cent [OF assms(2,3)] by simp
  then show ?thesis
    using negative_zero_is_invoice by simp
qed

theorem small_negative_amount_is_invoice_witness:
  "py_float (clean_val (Val (u ''-0.001''))) =
     Some (Num True (1152921504606847 / 1152921504606846976)) \<and>
   (0::rat) < 1152921504606847 / 1152921504606846976 \<and>
   (1152921504606847 / 1152921504606846976 :: rat) < 1 / 200 \<and>
   format_amount (Val (u ''-0.001'')) = u ''-0.00'' \<and>
   determine_transaction_type (format_amount (Val (u ''-0.001''))) = u ''INV''"
proof -
  have p: "py_float (clean_val (Val (u ''-0.001''))) =
      Some (Num True (1152921504606847 / 1152921504606846976))"
    by (simp add: amount_defs str_defs float_defs)
  have lo: "(0::rat) < 1152921504606847 / 1152921504606846976" by simp
  have hi: "(1152921504606847 / 1152921504606846976 :: rat) < 1 / 200" by simp
  show ?thesis
    using p lo hi small_negative_amount_is_invoice [OF p lo hi] by blast
qed

subsection \<open>What holds of the normalizer and the classifier\<close>

text \<open>
  Apart from \<open>inf\<close>, \<open>-inf\<close> and \<open>nan\<close>, every Document Balance has the shape
  \<open>-?\d+\.\d{2}\<close>; and the classifier answers \<open>CRD\<close> exactly for a strictly negative parse
  whenever the parse is not NaN.
\<close>

lemma digits_are_digits: "digits n \<noteq> [] \<and> list_all is_digit (digits n)"
proof (induction n rule: digits.induct)
  case (1 n)
  show ?case
  proof (cases "n < 10")
    case True
    then show ?thesis by (simp add: digits.simps [of n] is_digit_def)
  next
    case False
    have "n mod 10 < 10" by simp
    then have "is_digit (48 + n mod 10)" by (simp add: is_digit_def)
    with False 1 show ?thesis by (simp add: digits.simps [of n])
  qed
qed

lemma balance_pattern_digits:
  assumes "ds \<noteq> []" and "list_all is_digit ds" and "is_digit a" and "is_digit b"
  shows "balance_pattern (ds @ [46, a, b])" and "balance_pattern (45 # ds @ [46, a, b])"
proof -
  have all: "\<And>x. x \<in> set ds \<Longrightarrow> is_digit x"
    using assms(2) by (simp add: list_all_iff)
  have n46: "\<not> is_digit 46" by (simp add: is_digit_def)
  have tw: "takeWhile is_digit (ds @ [46, a, b]) = ds"
    using all n46 by (simp add: takeWhile_append2)
  have dw: "dropWhile is_digit (ds @ [46, a, b]) = [46, a, b]"
    using all n46 by (simp add: dropWhile_append2)
  obtain d ds' where ds: "ds = d # ds'" using assms(1) by (cases ds) auto
  then have "is_digit d" using all by simp
  then have "d \<noteq> 45" by (auto simp: is_digit_def)
  then have "(case ds @ [46, a, b] of [] \<Rightarrow> [] | c # r \<Rightarrow> if c = 45 then r else ds @ [46, a, b]) =
             ds @ [46, a, b]"
    by (simp add: ds)
  then show "balance_pattern (ds @ [46, a, b])"
    using tw dw assms by (simp add: balance_pattern_def)
  show "balance_pattern (45 # ds @ [46, a, b])"
    using tw dw assms by (simp add: balance_pattern_def)
qed

lemma format_2f_finite: "balance_pattern (format_2f (Num neg m))"
proof -
  define n where "n = nat (round_half_even (m * 100))"
  have a: "is_digit (48 + n mod 100 div 10)"
    by (simp add: is_digit_def div_less_iff_less_mult)
  have "n mod 10 < 10" by simp
  then have b: "is_digit (48 + n mod 10)" by (simp add: is_digit_def)
  have f: "format_2f (Num neg m) =
      (if neg then 45 # digits (n div 100) @ [46, 48 + n mod 100 div 10, 48 + n mod 10]
       else digits (n div 100) @ [46, 48 + n mod 100 div 10, 48 + n mod 10])"
    by (simp add: n_def u_def Let_def)
  show ?thesis
    unfolding f using balance_pattern_digits [OF _ _ a b, of "digits (n div 100)"] digits_are_digits
    by simp
qed

lemma format_amount_shape:
  "balance_pattern (format_amount val) \<or>
   format_amount val = u ''inf'' \<or> format_amount val = u ''-inf'' \<or> format_amount val = u ''nan''"
proof -
  have z: "balance_pattern (u ''0.00'')"
    by (simp add: balance_pattern_def u_def is_digit_def)
  have "balance_pattern (format_2f x) \<or> format_2f x = u ''inf'' \<or> format_2f x = u ''-inf'' \<or>
        format_2f x = u ''nan''" for x
    by (cases x) (simp_all add: format_2f_finite del: format_2f.simps(3))
  then show ?thesis
    using z by (auto simp: format_amount_def split: option.splits)
qed

lemma transaction_type_unless_nan:
  assumes "py_float s \<noteq> Some NaN"
  shows "determine_transaction_type s = u ''CRD'' \<longleftrightarrow> (\<exists>x. py_float s = Some x \<and> lt_zero x)"
proof (cases "py_float s")
  case None
  then show ?thesis by (simp add: determine_transaction_type_def u_def)
next
  case (Some x)
  have "x \<noteq> NaN" using assms Some by simp
  then have "ge_zero x \<longleftrightarrow> \<not> lt_zero x" by (cases x) auto
  then show ?thesis using Some by (simp add: determine_transaction_type_def u_def)
qed

text \<open>
  An unparsable amount becomes \<open>0.00\<close>. The amount is rounded as a float: the text
  \<open>-0.00499999999999999999999\<close> is read as the binary64 value nearest to it, which lies
  below \<open>-0.005\<close>, and is formatted as \<open>-0.01\<close>.
\<close>

lemma format_amount_unparsable: "format_amount (Val (u ''abc'')) = u ''0.00''"
  by (simp add: amount_defs str_defs float_defs)

lemma format_amount_rounds_the_float:
  "format_amount (Val (u ''-0.00499999999999999999999'')) = u ''-0.01''"
  by (simp add: amount_defs str_defs float_defs)

section \<open>The column resolver\<close>

lemma alias_neq:
  "u ''customer'' \<noteq> u ''order nbr.''"
  "u ''customer'' \<noteq> u ''reference nbr.''"
  "u ''customer'' \<noteq> u ''date''"
  "u ''customer'' \<noteq> u ''amount''"
  "u ''order nbr.'' \<noteq> u ''customer''"
  "u ''order nbr.'' \<noteq> u ''reference nbr.''"
  "u ''order nbr.'' \<noteq> u ''date''"
  "u ''order nbr.'' \<noteq> u ''amount''"
  "u ''reference nbr.'' \<noteq> u ''customer''"
  "u ''reference nbr.'' \<noteq> u ''order nbr.''"
  "u ''reference nbr.'' \<noteq> u ''date''"
  "u ''reference nbr.'' \<noteq> u ''amount''"
  "u ''date'' \<noteq> u ''customer''"
  "u ''date'' \<noteq> u ''order nbr.''"
  "u ''date'' \<noteq> u ''reference nbr.''"
  "u ''date'' \<noteq> u ''amount''"
  "u ''amount'' \<noteq> u ''customer''"
  "u ''amount'' \<noteq> u ''order nbr.''"
  "u ''amount'' \<noteq> u ''reference nbr.''"
  "u ''amount'' \<noteq> u ''date''"
  by (simp_all add: u_def)

lemma key_neq:
  "u ''customer'' \<noteq> u ''order_number''"
  "u ''customer'' \<noteq> u ''reference''"
  "u ''customer'' \<noteq> u ''date''"
  "u ''customer'' \<noteq> u ''amount''"
  "u ''order_number'' \<noteq> u ''customer''"
  "u ''order_number'' \<noteq> u ''reference''"
  "u ''order_number'' \<noteq> u ''date''"
  "u ''order_number'' \<noteq> u ''amount''"
  "u ''reference'' \<noteq> u ''customer''"
  "u ''reference'' \<noteq> u ''order_number''"
  "u ''reference'' \<noteq> u ''date''"
  "u ''reference'' \<noteq> u ''amount''"
  "u ''date'' \<noteq> u ''customer''"
  "u ''date'' \<noteq> u ''order_number''"
  "u ''date'' \<noteq> u ''reference''"
  "u ''date'' \<noteq> u ''amount''"
  "u ''amount'' \<noteq> u ''customer''"
  "u ''amount'' \<noteq> u ''order_number''"
  "u ''amount'' \<noteq> u ''reference''"
  "u ''amount'' \<noteq> u ''date''"
  by (simp_all add: u_def)

lemma alias_key_unfold:
  "alias_key x =
     (if u ''customer'' = x then Some (u ''customer'')
      else if u ''order nbr.'' = x then Some (u ''order_number'')
      else if u ''reference nbr.'' = x then Some (u ''reference'')
      else if u ''date'' = x then Some (u ''date'')
      else if u ''amount'' = x then Some (u ''amount'')
      else None)"
  by (simp add: alias_key_def key_alias_def)

lemma alias_key_iff:
  assumes "(k, a) \<in> set key_alias"
  shows "alias_key x = Some k \<longleftrightarrow> x = a"
proof -
  from assms consider
      "k = u ''customer''" "a = u ''customer''"
    | "k = u ''order_number''" "a = u ''order nbr.''"
    | "k = u ''reference''" "a = u ''reference nbr.''"
    | "k = u ''date''" "a = u ''date''"
    | "k = u ''amount''" "a = u ''amount''"
    by (auto simp: key_alias_def)
  then show ?thesis
    by cases (auto simp: alias_key_unfold key_neq alias_neq)
qed

lemma match_column_alt:
  "match_column rc col =
     (case alias_key (strip (lower col)) of Some k \<Rightarrow> AList.update k (Some col) rc | None \<Rightarrow> rc)"
  by (simp add: match_column_def alias_key_unfold Let_def)

lemma alias_key_range: "alias_key x = Some k \<Longrightarrow> k \<in> fst ` set key_alias"
  by (auto simp: alias_key_unfold key_alias_def split: if_splits)

lemma keys_update: "k \<in> fst ` set al \<Longrightarrow> map fst (AList.update k v al) = map fst al"
  by (induction al) auto

lemma match_column_keys:
  assumes "map fst rc = map fst key_alias"
  shows "map fst (match_column rc col) = map fst key_alias"
proof (cases "alias_key (strip (lower col))")
  case None
  then show ?thesis using assms by (simp add: match_column_alt)
next
  case (Some k)
  then have "k \<in> fst ` set rc"
    using alias_key_range [OF Some] assms by (metis list.set_map)
  then show ?thesis using Some assms by (simp add: match_column_alt keys_update)
qed

lemma scan_columns_keys:
  "map fst rc = map fst key_alias \<Longrightarrow> map fst (scan_columns rc cols) = map fst key_alias"
  by (induction cols arbitrary: rc) (simp_all add: match_column_keys)

lemma match_column_map_of:
  assumes "(k, a) \<in> set key_alias"
  shows "map_of (match_column rc col) k = (if matches a col then Some (Some col) else map_of rc k)"
proof (cases "alias_key (strip (lower col))")
  case None
  then have "\<not> matches a col"
    using alias_key_iff [OF assms, of "strip (lower col)"] by (simp add: matches_def)
  then show ?thesis using None by (simp add: match_column_alt)
next
  case (Some k')
  show ?thesis
  proof (cases "k' = k")
    case True
    then have "matches a col"
      using Some alias_key_iff [OF assms, of "strip (lower col)"] by (simp add: matches_def)
    then show ?thesis using Some True by (simp add: match_column_alt update_conv')
  next
    case False
    then have "\<not> matches a col"
      using Some alias_key_iff [OF assms, of "strip (lower col)"] by (simp add: matches_def)
    then show ?thesis using Some False by (simp add: match_column_alt update_conv')
  qed
qed

lemma scan_columns_map_of:
  assumes "(k, a) \<in> set key_alias"
  shows "map_of (scan_columns rc cols) k =
           (case filter (matches a) cols of [] \<Rightarrow> map_of rc k | hs \<Rightarrow> Some (Some (last hs)))"
proof (induction cols arbitrary: rc)
  case Nil
  show ?case by simp
next
  case (Cons col cols)
  show ?case
    by (simp add: Cons.IH match_column_map_of [OF assms] split: list.splits)
qed

lemma init_map_of:
  "(k, a) \<in> set key_alias \<Longrightarrow> map_of required_cols_init k = Some None"
  by (auto simp: key_alias_def required_cols_init_def u_def)

lemma init_keys: "map fst required_cols_init = map fst key_alias"
  by (simp add: key_alias_def required_cols_init_def)

lemma missing_cols_by_key:
  "distinct (map fst rc) \<Longrightarrow>
     missing_cols rc = filter (\<lambda>k. map_of rc k = Some None) (map fst rc)"
proof (induction rc)
  case Nil
  show ?case by (simp add: missing_cols_def)
next
  case (Cons p rc)
  obtain k v where p: "p = (k, v)" by (cases p)
  have "\<And>k'. k' \<in> set (map fst rc) \<Longrightarrow> k' \<noteq> k"
    using Cons.prems p by auto
  then have "filter (\<lambda>k'. map_of (p # rc) k' = Some None) (map fst rc) =
             filter (\<lambda>k'. map_of rc k' = Some None) (map fst rc)"
    using p by (intro filter_cong) auto
  moreover have "missing_cols rc = filter (\<lambda>k. map_of rc k = Some None) (map fst rc)"
    using Cons by simp
  ultimately show ?case
    using p by (simp add: missing_cols_def)
qed

lemma key_alias_distinct: "distinct (map fst key_alias)"
  by (simp add: key_alias_def u_def)

lemma scan_none_iff:
  assumes "(k, a) \<in> set key_alias"
  shows "map_of (scan_columns required_cols_init cols) k = Some None \<longleftrightarrow>
           \<not> (\<exists>col \<in> set cols. matches a col)"
proof -
  have "filter (matches a) cols = [] \<longleftrightarrow> \<not> (\<exists>col \<in> set cols. matches a col)"
    by (simp add: filter_empty_conv)
  then show ?thesis
    by (cases "filter (matches a) cols")
       (simp_all add: scan_columns_map_of [OF assms] init_map_of [OF assms])
qed

lemma missing_cols_scan:
  "missing_cols (scan_columns required_cols_init cols) = unresolved cols"
proof -
  let ?rc = "scan_columns required_cols_init cols"
  have keys: "map fst ?rc = map fst key_alias"
    by (rule scan_columns_keys [OF init_keys])
  have "missing_cols ?rc = filter (\<lambda>k. map_of ?rc k = Some None) (map fst key_alias)"
    using missing_cols_by_key [of ?rc] keys key_alias_distinct by simp
  also have "\<dots> = map fst (filter (\<lambda>(k, a). map_of ?rc k = Some None) key_alias)"
    by (simp add: filter_map comp_def case_prod_unfold)
  also have "\<dots> = unresolved cols"
    unfolding unresolved_def
    by (rule arg_cong [where f = "map fst"], rule filter_cong) (auto simp: scan_none_iff)
  finally show ?thesis .
qed

lemma col_name_scan:
  assumes "(k, a) \<in> set key_alias" and "filter (matches a) cols \<noteq> []"
  shows "col_name (scan_columns required_cols_init cols) k = last (filter (matches a) cols)"
  using assms(2)
  by (cases "filter (matches a) cols")
     (simp_all add: col_name_def scan_columns_map_of [OF assms(1)])

lemma example_scan:
  "scan_columns required_cols_init example_columns =
     [(u ''customer'', Some (u ''Customer'')), (u ''order_number'', Some (u ''Order Nbr.'')),
      (u ''reference'', Some (u ''Reference Nbr.'')), (u ''date'', Some (u ''Date'')),
      (u ''amount'', Some (u ''Amount''))]"
  by (simp add: example_columns_def required_cols_init_def match_column_def str_defs)

text \<open>
  C3 (as stated). Two headers that normalize to the alias \<open>customer\<close>: the key is bound
  to the second one, \<open>CUSTOMER\<close>, not to the first; the later assignment overwrites.
\<close>

theorem first_match_is_overwritten:
  "matches (u ''customer'') (u ''Customer'') \<and>
   matches (u ''customer'') (u ''CUSTOMER'') \<and>
   col_name (scan_columns required_cols_init
     [u ''Customer'', u ''CUSTOMER'', u ''Order Nbr.'', u ''Reference Nbr.'', u ''Date'', u ''Amount''])
     (u ''customer'') = u ''CUSTOMER'' \<and>
   u ''CUSTOMER'' \<noteq> u ''Customer''"
  by (simp add: matches_def col_name_def match_column_def required_cols_init_def str_defs)

text \<open>
  C3 (amended). For each semantic key, the column resolver binds the key to the last
  header, in left-to-right scan order, that normalizes to the key's alias: a later
  matching header overwrites an earlier one.
\<close>

theorem last_match_wins:
  assumes "(k, a) \<in> set key_alias"
    and "cols = before @ col # after"
    and "matches a col"
    and "\<forall>c \<in> set after. \<not> matches a c"
  shows "col_name (scan_columns required_cols_init cols) k = col"
proof -
  have "filter (matches a) after = []"
    using assms(4) by (simp add: filter_empty_conv)
  then have f: "filter (matches a) cols = filter (matches a) before @ [col]"
    using assms(2,3) by simp
  then show ?thesis
    using col_name_scan [OF assms(1), of cols] by simp
qed

theorem last_match_wins_witness:
  "(u ''customer'', u ''customer'') \<in> set key_alias \<and>
   matches (u ''customer'') (u ''Customer'') \<and>
   matches (u ''customer'') (u ''CUSTOMER'') \<and>
   \<not> matches (u ''customer'') (u ''Date'') \<and>
   col_name (scan_columns required_cols_init ([u ''Customer''] @ u ''CUSTOMER'' # [u ''Date'']))
     (u ''customer'') = u ''CUSTOMER''"
proof -
  have k: "(u ''customer'', u ''customer'') \<in> set key_alias"
    by (simp add: key_alias_def)
  have f: "matches (u ''customer'') (u ''Customer'')"
    by (simp add: matches_def str_defs)
  have m: "matches (u ''customer'') (u ''CUSTOMER'')"
    by (simp add: matches_def str_defs)
  have d: "\<not> matches (u ''customer'') (u ''Date'')"
    by (simp add: matches_def str_defs)
  then have n: "\<forall>c \<in> set [u ''Date'']. \<not> matches (u ''customer'') c"
    by simp
  show ?thesis
    using k f m d last_match_wins [OF k refl m n, of "[u ''Customer'']"] by blast
qed

lemma unresolved_iff:
  assumes "(k, a) \<in> set key_alias"
  shows "k \<in> set (unresolved cols) \<longleftrightarrow> \<not> (\<exists>col \<in> set cols. matches a col)"
proof -
  have uniq: "a' = a" if "(k, a') \<in> set key_alias" for a'
    by (rule eq_key_imp_eq_value [OF key_alias_distinct that assms])
  have "k \<in> set (unresolved cols) \<longleftrightarrow>
          (\<exists>a'. (k, a') \<in> set key_alias \<and> \<not> (\<exists>col \<in> set cols. matches a' col))"
    unfolding unresolved_def by force
  also have "\<dots> \<longleftrightarrow> \<not> (\<exists>col \<in> set cols. matches a col)"
    using uniq assms by blast
  finally show ?thesis .
qed

text \<open>
  C4. When the loader has accepted the file (supported extension, table not empty) and a
  semantic key has no matching header, the pipeline stops with \<open>MissingColumns\<close>, which
  lists every key without a match, in dictionary order, and no output table is made.
\<close>

theorem missing_columns_all_reported:
  assumes "endswith (lower name) (u ''.csv'') \<or> endswith (lower name) (u ''.xls'') \<or>
           endswith (lower name) (u ''.xlsx'')"
    and "\<not> df_empty df"
    and "(k, a) \<in> set key_alias"
    and "\<not> (\<exists>col \<in> set (columns df). matches a col)"
  shows "process_file lib name df = Inl (MissingColumns (unresolved (columns df))) \<and>
         k \<in> set (unresolved (columns df)) \<and>
         (\<forall>(k', a') \<in> set key_alias.
            k' \<in> set (unresolved (columns df)) \<longleftrightarrow> \<not> (\<exists>col \<in> set (columns df). matches a' col))"
proof -
  have k: "k \<in> set (unresolved (columns df))"
    using assms(3,4) by (simp add: unresolved_iff)
  then have "missing_cols (scan_columns required_cols_init (columns df)) \<noteq> []"
    by (auto simp: missing_cols_scan)
  then have "process_file lib name df = Inl (MissingColumns (unresolved (columns df)))"
    using assms(1,2) by (simp add: process_file_def Let_def missing_cols_scan)
  then show ?thesis
    using k unresolved_iff by blast
qed

theorem missing_columns_all_reported_witness:
  "endswith (lower (u ''a.csv'')) (u ''.csv'') \<and>
   \<not> df_empty two_missing_df \<and>
   (u ''date'', u ''date'') \<in> set key_alias \<and>
   \<not> (\<exists>col \<in> set (columns two_missing_df). matches (u ''date'') col) \<and>
   process_file example_lib (u ''a.csv'') two_missing_df =
     Inl (MissingColumns [u ''date'', u ''amount''])"
proof -
  have ext: "endswith (lower (u ''a.csv'')) (u ''.csv'') \<or> endswith (lower (u ''a.csv'')) (u ''.xls'') \<or>
             endswith (lower (u ''a.csv'')) (u ''.xlsx'')"
    by (simp add: endswith_def str_defs suffix_to_prefix)
  have ne: "\<not> df_empty two_missing_df"
    by (simp add: df_empty_def two_missing_df_def)
  have k: "(u ''date'', u ''date'') \<in> set key_alias"
    by (simp add: key_alias_def)
  have m: "\<not> (\<exists>col \<in> set (columns two_missing_df). matches (u ''date'') col)"
    by (simp add: two_missing_df_def matches_def str_defs)
  have un: "unresolved (columns two_missing_df) = [u ''date'', u ''amount'']"
    by (simp add: missing_cols_scan [symmetric] missing_cols_def two_missing_df_def
        required_cols_init_def match_column_def str_defs)
  have e: "endswith (lower (u ''a.csv'')) (u ''.csv'')"
    by (simp add: endswith_def str_defs suffix_to_prefix)
  show ?thesis
    using e ne k m un missing_columns_all_reported [OF ext ne k m, of example_lib] by simp
qed

section \<open>The date normalizer\<close>

lemma try_formats_find:
  "try_formats lib text fmts =
     (case List.find (\<lambda>fmt. rendered lib text fmt \<noteq> None) fmts of
        Some fmt \<Rightarrow> rendered lib text fmt
      | None \<Rightarrow> None)"
  by (induction fmts) (auto simp: rendered_def split: option.splits)

text \<open>
  C5. The date normalizer is the procedure of the specification: a blank cell (missing, or
  empty once trimmed) gives the empty string; otherwise the nine formats are tried in
  their order against the cell's text and the first success is rendered as \<open>%d/%m/%Y\<close>;
  failing all, the general day-first parser is tried; failing that too, the text of the
  cell is returned. The function is total: no cell makes it raise.
\<close>

theorem format_date_follows_spec:
  "format_date lib val = spec_format_date lib val"
proof (cases "List.find (\<lambda>fmt. rendered lib (py_str val) fmt \<noteq> None) spec_date_formats")
  case None
  then show ?thesis
    by (simp add: format_date_def spec_format_date_def blank_def try_formats_find
        date_formats_def spec_date_formats_def)
next
  case (Some fmt)
  then have "rendered lib (py_str val) fmt \<noteq> None"
    by (auto simp: find_Some_iff)
  then obtain s where "rendered lib (py_str val) fmt = Some s" by auto
  with Some show ?thesis
    by (simp add: format_date_def spec_format_date_def blank_def try_formats_find
        date_formats_def spec_date_formats_def)
qed

theorem format_date_follows_spec_witness:
  "notna (Val (u ''2023-02-01'')) \<and>
   strip (py_str (Val (u ''2023-02-01''))) \<noteq> [] \<and>
   format_date example_lib (Val (u ''2023-02-01'')) = spec_format_date example_lib (Val (u ''2023-02-01'')) \<and>
   format_date example_lib (Val (u ''2023-02-01'')) = u ''01/02/2023''"
proof -
  have "spec_format_date example_lib (Val (u ''2023-02-01'')) = u ''01/02/2023''"
    by (simp add: spec_format_date_def blank_def spec_date_formats_def rendered_def example_lib_def
        str_defs)
  moreover have "strip (py_str (Val (u ''2023-02-01''))) \<noteq> []"
    by (simp add: str_defs)
  ultimately show ?thesis
    using format_date_follows_spec [of example_lib "Val (u ''2023-02-01'')"] by simp
qed

section \<open>The document number\<close>

text \<open>
  C6. The Document Number is \<open>O_\<close>, the order number's text, \<open>_\<close>, and the reference's
  text, where a missing cell contributes the empty string (not \<open>nan\<close>); it is never
  empty, and it is \<open>O__\<close> when both contributions are empty.
\<close>

theorem document_number_form:
  "create_document_number rc row =
     u ''O_'' @ cell_text (row (col_name rc (u ''order_number''))) @ u ''_'' @
       cell_text (row (col_name rc (u ''reference''))) \<and>
   create_document_number rc row \<noteq> [] \<and>
   (cell_text (row (col_name rc (u ''order_number''))) = [] \<and>
    cell_text (row (col_name rc (u ''reference''))) = [] \<longrightarrow>
      create_document_number rc row = u ''O__'')"
proof -
  have t: "(if notna c then py_str c else []) = cell_text c" for c
    by (cases c) simp_all
  have f: "create_document_number rc row =
     u ''O_'' @ cell_text (row (col_name rc (u ''order_number''))) @ u ''_'' @
       cell_text (row (col_name rc (u ''reference'')))"
    by (simp add: create_document_number_def Let_def t)
  have "u ''O_'' \<noteq> []" and "u ''O_'' @ u ''_'' = u ''O__''"
    by (simp_all add: u_def)
  then show ?thesis
    using f by auto
qed

theorem document_number_form_witness:
  "cell_text (row_of [(u ''Customer'', Val (u ''Bolt'')), (u ''Order Nbr.'', NA)]
     (col_name (scan_columns required_cols_init example_columns) (u ''order_number''))) = [] \<and>
   cell_text (row_of [(u ''Customer'', Val (u ''Bolt'')), (u ''Order Nbr.'', NA)]
     (col_name (scan_columns required_cols_init example_columns) (u ''reference''))) = [] \<and>
   create_document_number (scan_columns required_cols_init example_columns)
     (row_of [(u ''Customer'', Val (u ''Bolt'')), (u ''Order Nbr.'', NA)]) = u ''O__''"
proof -
  let ?rc = "scan_columns required_cols_init example_columns"
  let ?row = "row_of [(u ''Customer'', Val (u ''Bolt'')), (u ''Order Nbr.'', NA)]"
  have a: "cell_text (?row (col_name ?rc (u ''order_number''))) = []"
    by (simp add: example_scan col_name_def row_of_def key_neq) (simp add: u_def)
  have b: "cell_text (?row (col_name ?rc (u ''reference''))) = []"
    by (simp add: example_scan col_name_def row_of_def key_neq) (simp add: u_def)
  show ?thesis
    using a b document_number_form [of ?rc ?row] by blast
qed

section \<open>The row filter and the assembler\<close>

lemma names_distinct:
  "distinct [u ''Debtor Reference'', u ''Document Number'', u ''Document Date'',
             u ''Document Balance'', u ''Transaction Type'']"
  by (simp add: u_def)

lemma zip_map_same: "zip (map f xs) (map g xs) = map (\<lambda>x. (f x, g x)) xs"
  by (induction xs) auto

lemma keep_map: "keep (map P xs) (map f xs) = map f (filter P xs)"
  by (induction xs) (auto simp: keep_def)

lemma length_keep: "length ys = length xs \<Longrightarrow> length (keep (map P xs) ys) = length (filter P xs)"
proof (induction xs arbitrary: ys)
  case Nil
  then show ?case by (simp add: keep_def)
next
  case (Cons x xs)
  then obtain y ys' where "ys = y # ys'" by (cases ys) auto
  with Cons show ?case by (auto simp: keep_def)
qed

lemma strip_nonempty:
  assumes "\<exists>c \<in> set s. \<not> py_isspace c"
  shows "strip s \<noteq> []"
proof -
  let ?t = "dropWhile py_isspace s"
  have t: "?t \<noteq> []" using assms by (simp add: dropWhile_eq_Nil_conv)
  then have "\<not> py_isspace (hd ?t)" by (rule hd_dropWhile)
  moreover have "hd ?t \<in> set (rev ?t)" using t by simp
  ultimately have "dropWhile py_isspace (rev ?t) \<noteq> []"
    by (auto simp: dropWhile_eq_Nil_conv)
  then show ?thesis by (simp add: strip_def lstrip_def rstrip_def)
qed

lemma document_number_not_blank: "strip (create_document_number rc row) \<noteq> []"
proof -
  have "79 \<in> set (create_document_number rc row)"
    by (simp add: create_document_number_def u_def Let_def)
  moreover have "\<not> py_isspace 79" by (simp add: py_isspace_def)
  ultimately show ?thesis by (intro strip_nonempty) blast
qed

lemma name_neq:
  "u ''Debtor Reference'' \<noteq> u ''Document Number''"
  "u ''Debtor Reference'' \<noteq> u ''Document Date''"
  "u ''Debtor Reference'' \<noteq> u ''Document Balance''"
  "u ''Debtor Reference'' \<noteq> u ''Transaction Type''"
  "u ''Document Number'' \<noteq> u ''Debtor Reference''"
  "u ''Document Number'' \<noteq> u ''Document Date''"
  "u ''Document Number'' \<noteq> u ''Document Balance''"
  "u ''Document Number'' \<noteq> u ''Transaction Type''"
  "u ''Document Date'' \<noteq> u ''Debtor Reference''"
  "u ''Document Date'' \<noteq> u ''Document Number''"
  "u ''Document Date'' \<noteq> u ''Document Balance''"
  "u ''Document Date'' \<noteq> u ''Transaction Type''"
  "u ''Document Balance'' \<noteq> u ''Debtor Reference''"
  "u ''Document Balance'' \<noteq> u ''Document Number''"
  "u ''Document Balance'' \<noteq> u ''Document Date''"
  "u ''Document Balance'' \<noteq> u ''Transaction Type''"
  "u ''Transaction Type'' \<noteq> u ''Debtor Reference''"
  "u ''Transaction Type'' \<noteq> u ''Document Number''"
  "u ''Transaction Type'' \<noteq> u ''Document Date''"
  "u ''Transaction Type'' \<noteq> u ''Document Balance''"
  by (simp_all add: u_def)

lemma built_frame:
  "set_col (u ''Transaction Type'') v5
     (set_col (u ''Document Balance'') v4
       (set_col (u ''Document Date'') v3
         (set_col (u ''Document Number'') v2
           (set_col (u ''Debtor Reference'') v1 empty_frame)))) =
   \<lparr>index = [0..<length v1],
    data = [(u ''Debtor Reference'', v1), (u ''Document Number'', v2), (u ''Document Date'', v3),
            (u ''Document Balance'', v4), (u ''Transaction Type'', v5)]\<rparr>"
  by (simp add: set_col_def empty_frame_def name_neq)

lemma built_balance:
  "get_col (set_col (u ''Document Balance'') v4
       (set_col (u ''Document Date'') v3
         (set_col (u ''Document Number'') v2
           (set_col (u ''Debtor Reference'') v1 empty_frame)))) (u ''Document Balance'') = v4"
  by (simp add: set_col_def empty_frame_def get_col_def update_conv' name_neq)

lemma select_output_columns:
  "select_columns output_columns
     \<lparr>index = idx,
      data = [(u ''Debtor Reference'', v1), (u ''Document Number'', v2), (u ''Document Date'', v3),
              (u ''Document Balance'', v4), (u ''Transaction Type'', v5)]\<rparr> =
   Inr \<lparr>index = idx,
        data = [(u ''Debtor Reference'', v1), (u ''Transaction Type'', v5), (u ''Document Number'', v2),
                (u ''Document Date'', v3), (u ''Document Balance'', v4)]\<rparr>"
  by (simp add: select_columns_def output_columns_def get_col_def name_neq)

lemma row_mask_built:
  "row_mask \<lparr>index = idx,
      data = [(u ''Debtor Reference'', v1), (u ''Document Number'', v2), (u ''Document Date'', v3),
              (u ''Document Balance'', v4), (u ''Transaction Type'', v5)]\<rparr> =
   map (\<lambda>(dr, dn). notna dr \<and> strip (py_str dr) \<noteq> [] \<and> notna dn \<and> strip (py_str dn) \<noteq> [])
     (zip v1 v2)"
  by (simp add: row_mask_def get_col_def name_neq)

lemma select_rows_built:
  "select_rows flags \<lparr>index = idx,
      data = [(n1, v1), (n2, v2), (n3, v3), (n4, v4), (n5, v5)]\<rparr> =
   \<lparr>index = keep flags idx,
    data = [(n1, keep flags v1), (n2, keep flags v2), (n3, keep flags v3),
            (n4, keep flags v4), (n5, keep flags v5)]\<rparr>"
  by (simp add: select_rows_def)

lemma process_file_resolved:
  assumes ext: "endswith (lower name) (u ''.csv'') \<or> endswith (lower name) (u ''.xls'') \<or>
                endswith (lower name) (u ''.xlsx'')"
    and ne: "\<not> df_empty df"
    and res: "unresolved (columns df) = []"
  shows "process_file lib name df =
           Inr \<lparr>index = [0..<length (kept_rows df)],
                data = map (\<lambda>j. (output_columns ! j,
                         map (\<lambda>row. output_row lib (scan_columns required_cols_init (columns df)) row ! j)
                           (kept_rows df))) [0, 1, 2, 3, 4]\<rparr>"
proof -
  define rc where "rc = scan_columns required_cols_init (columns df)"
  define P where "P = (\<lambda>row. \<not> blank (row (col_name rc (u ''customer''))))"
  define v1 where "v1 = df_col df (col_name rc (u ''customer''))"
  define v2 where "v2 = map (\<lambda>row. Val (create_document_number rc row)) (rows df)"
  define v3 where "v3 = map (\<lambda>val. Val (format_date lib val)) (df_col df (col_name rc (u ''date'')))"
  define v4 where "v4 = map (\<lambda>val. Val (format_amount val)) (df_col df (col_name rc (u ''amount'')))"
  define v5 where "v5 = map (\<lambda>val. Val (determine_transaction_type (py_str val))) v4"
  define built where "built = \<lparr>index = [0..<length v1],
      data = [(u ''Debtor Reference'', v1), (u ''Document Number'', v2), (u ''Document Date'', v3),
              (u ''Document Balance'', v4), (u ''Transaction Type'', v5)]\<rparr>"
  have miss: "missing_cols rc = []"
    using res by (simp add: rc_def missing_cols_scan)
  have flags: "row_mask built = map P (rows df)"
    unfolding built_def row_mask_built v1_def v2_def df_col_def zip_map_same P_def
    by (simp add: blank_def document_number_not_blank)
  have kept: "kept_rows df = filter P (rows df)"
    by (simp add: kept_rows_def P_def rc_def)
  have len: "length (keep (map P (rows df)) [0..<length v1]) = length (kept_rows df)"
    by (simp add: length_keep v1_def df_col_def kept)
  have k1: "keep (map P (rows df)) v1 = map (\<lambda>row. row (col_name rc (u ''customer''))) (kept_rows df)"
    by (simp add: v1_def df_col_def keep_map kept)
  have k2: "keep (map P (rows df)) v2 = map (\<lambda>row. Val (create_document_number rc row)) (kept_rows df)"
    by (simp add: v2_def keep_map kept)
  have k3: "keep (map P (rows df)) v3 =
      map (\<lambda>row. Val (format_date lib (row (col_name rc (u ''date''))))) (kept_rows df)"
    by (simp add: v3_def df_col_def keep_map kept comp_def)
  have k4: "keep (map P (rows df)) v4 =
      map (\<lambda>row. Val (format_amount (row (col_name rc (u ''amount''))))) (kept_rows df)"
    by (simp add: v4_def df_col_def keep_map kept comp_def)
  have k5: "keep (map P (rows df)) v5 =
      map (\<lambda>row. Val (determine_transaction_type (format_amount (row (col_name rc (u ''amount''))))))
        (kept_rows df)"
    by (simp add: v5_def v4_def df_col_def keep_map kept comp_def)
  have "process_file lib name df =
          select_columns output_columns (reset_index (select_rows (row_mask built) built))"
    using ext ne miss
    unfolding process_file_def Let_def rc_def [symmetric]
    by (simp add: built_frame built_balance built_def v1_def v2_def v3_def v4_def v5_def)
  also have "\<dots> = Inr \<lparr>index = [0..<length (kept_rows df)],
      data = [(u ''Debtor Reference'', keep (map P (rows df)) v1),
              (u ''Transaction Type'', keep (map P (rows df)) v5),
              (u ''Document Number'', keep (map P (rows df)) v2),
              (u ''Document Date'', keep (map P (rows df)) v3),
              (u ''Document Balance'', keep (map P (rows df)) v4)]\<rparr>"
    unfolding flags unfolding built_def select_rows_built
    by (simp add: reset_index_def select_output_columns len)
  finally show ?thesis
    unfolding k1 k2 k3 k4 k5
    by (simp add: output_columns_def output_row_def rc_def)
qed

lemma frame_rows_built:
  "frame_rows \<lparr>index = [0..<length xs],
      data = map (\<lambda>j. (names ! j, map (\<lambda>x. f x ! j) xs)) [0, 1, 2, 3, 4]\<rparr> =
   map (\<lambda>x. [f x ! 0, f x ! 1, f x ! 2, f x ! 3, f x ! 4]) xs"
  by (rule nth_equalityI) (simp_all add: frame_rows_def)

lemma output_row_nths:
  "[output_row lib rc row ! 0, output_row lib rc row ! 1, output_row lib rc row ! 2,
    output_row lib rc row ! 3, output_row lib rc row ! 4] = output_row lib rc row"
  by (simp add: output_row_def)

lemma example_ext:
  "endswith (lower (u ''a.csv'')) (u ''.csv'') \<or> endswith (lower (u ''a.csv'')) (u ''.xls'') \<or>
   endswith (lower (u ''a.csv'')) (u ''.xlsx'')"
  by (simp add: endswith_def str_defs suffix_to_prefix)

lemma example_not_empty: "\<not> df_empty example_df"
  by (simp add: df_empty_def example_df_def example_columns_def)

lemma example_resolved: "unresolved (columns example_df) = []"
  by (simp add: example_df_def missing_cols_scan [symmetric] example_scan missing_cols_def)

lemma example_kept:
  "kept_rows example_df =
     [row_of [(u ''Customer'', Val (u ''Acme'')), (u ''Order Nbr.'', Val (u ''100'')),
              (u ''Reference Nbr.'', Val (u ''R1'')), (u ''Date'', Val (u ''01/02/2023'')),
              (u ''Amount'', Val (u ''$1,200.50''))],
      row_of [(u ''Customer'', Val (u ''Bolt'')), (u ''Order Nbr.'', NA),
              (u ''Reference Nbr.'', NA), (u ''Date'', NA),
              (u ''Amount'', Val (u ''-50''))]]"
  by (simp add: kept_rows_def example_df_def example_scan col_name_def row_of_def blank_def str_defs)

lemma example_rows:
  "map (output_row example_lib (scan_columns required_cols_init (columns example_df)))
     (kept_rows example_df) =
     [[Val (u ''Acme''), Val (u ''INV''), Val (u ''O_100_R1''), Val (u ''01/02/2023''),
       Val (u ''1200.50'')],
      [Val (u ''Bolt''), Val (u ''CRD''), Val (u ''O__''), Val [], Val (u ''-50.00'')]]"
  unfolding example_kept
  by (simp add: example_df_def example_scan output_row_def col_name_def row_of_def
      create_document_number_def format_date_def date_formats_def example_lib_def
      amount_defs float_defs str_defs)

text \<open>
  C7. When the five columns resolve, the output holds exactly the input rows whose
  Customer is not blank, transformed, in their input order, with the index \<open>0, 1, ...\<close>;
  every Debtor Reference and every Document Number in it is non-empty after trimming.
\<close>

theorem row_filter_output:
  assumes "endswith (lower name) (u ''.csv'') \<or> endswith (lower name) (u ''.xls'') \<or>
           endswith (lower name) (u ''.xlsx'')"
    and "\<not> df_empty df"
    and "unresolved (columns df) = []"
  shows "\<exists>out. process_file lib name df = Inr out \<and>
           frame_rows out =
             map (output_row lib (scan_columns required_cols_init (columns df))) (kept_rows df) \<and>
           kept_rows df =
             filter (\<lambda>row. \<not> blank (row (col_name (scan_columns required_cols_init (columns df))
               (u ''customer'')))) (rows df) \<and>
           index out = [0..<length (kept_rows df)] \<and>
           (\<forall>val \<in> set (get_col out (u ''Debtor Reference'')).
              notna val \<and> strip (py_str val) \<noteq> []) \<and>
           (\<forall>val \<in> set (get_col out (u ''Document Number'')).
              notna val \<and> strip (py_str val) \<noteq> [])"
proof -
  let ?rc = "scan_columns required_cols_init (columns df)"
  let ?out = "\<lparr>index = [0..<length (kept_rows df)],
      data = map (\<lambda>j. (output_columns ! j, map (\<lambda>row. output_row lib ?rc row ! j) (kept_rows df)))
        [0, 1, 2, 3, 4]\<rparr>"
  have p: "process_file lib name df = Inr ?out"
    by (rule process_file_resolved [OF assms])
  have r: "frame_rows ?out = map (output_row lib ?rc) (kept_rows df)"
    unfolding frame_rows_built output_row_nths ..
  have k: "kept_rows df = filter (\<lambda>row. \<not> blank (row (col_name ?rc (u ''customer'')))) (rows df)"
    by (simp add: kept_rows_def)
  have dr: "get_col ?out (u ''Debtor Reference'') =
      map (\<lambda>row. row (col_name ?rc (u ''customer''))) (kept_rows df)"
    by (simp add: get_col_def output_columns_def output_row_def)
  have dn: "get_col ?out (u ''Document Number'') =
      map (\<lambda>row. Val (create_document_number ?rc row)) (kept_rows df)"
    by (simp add: get_col_def output_columns_def output_row_def name_neq)
  have a: "\<forall>val \<in> set (get_col ?out (u ''Debtor Reference'')). notna val \<and> strip (py_str val) \<noteq> []"
    unfolding dr by (auto simp: kept_rows_def blank_def)
  have b: "\<forall>val \<in> set (get_col ?out (u ''Document Number'')). notna val \<and> strip (py_str val) \<noteq> []"
    unfolding dn by (auto simp: document_number_not_blank)
  have i: "index ?out = [0..<length (kept_rows df)]" by simp
  show ?thesis
    using p r k i a b by (intro exI [of _ ?out] conjI)
qed

theorem row_filter_output_witness:
  "(endswith (lower (u ''a.csv'')) (u ''.csv'') \<or> endswith (lower (u ''a.csv'')) (u ''.xls'') \<or>
    endswith (lower (u ''a.csv'')) (u ''.xlsx'')) \<and>
   \<not> df_empty example_df \<and>
   unresolved (columns example_df) = [] \<and>
   (\<exists>out. process_file example_lib (u ''a.csv'') example_df = Inr out \<and>
      index out = [0, 1] \<and>
      frame_rows out =
        [[Val (u ''Acme''), Val (u ''INV''), Val (u ''O_100_R1''), Val (u ''01/02/2023''),
          Val (u ''1200.50'')],
         [Val (u ''Bolt''), Val (u ''CRD''), Val (u ''O__''), Val [], Val (u ''-50.00'')]])"
proof -
  have len: "[0..<length (kept_rows example_df)] = [0, 1]"
    by (simp add: example_kept upt_rec)
  obtain out where "process_file example_lib (u ''a.csv'') example_df = Inr out"
    and "frame_rows out =
      map (output_row example_lib (scan_columns required_cols_init (columns example_df)))
        (kept_rows example_df)"
    and "index out = [0..<length (kept_rows example_df)]"
    using row_filter_output [OF example_ext example_not_empty example_resolved, of example_lib]
    by blast
  then show ?thesis
    using example_ext example_not_empty example_resolved
    unfolding example_rows len by blast
qed

text \<open>
  C8. When the five columns resolve, the output table has exactly the columns Debtor
  Reference, Transaction Type, Document Number, Document Date, Document Balance, in that
  order.
\<close>

theorem output_has_five_columns:
  assumes "endswith (lower name) (u ''.csv'') \<or> endswith (lower name) (u ''.xls'') \<or>
           endswith (lower name) (u ''.xlsx'')"
    and "\<not> df_empty df"
    and "unresolved (columns df) = []"
  shows "\<exists>out. process_file lib name df = Inr out \<and>
           map fst (data out) =
             [u ''Debtor Reference'', u ''Transaction Type'', u ''Document Number'',
              u ''Document Date'', u ''Document Balance'']"
  by (simp add: process_file_resolved [OF assms] output_columns_def)

theorem output_has_five_columns_witness:
  "(endswith (lower (u ''a.csv'')) (u ''.csv'') \<or> endswith (lower (u ''a.csv'')) (u ''.xls'') \<or>
    endswith (lower (u ''a.csv'')) (u ''.xlsx'')) \<and>
   \<not> df_empty example_df \<and>
   unresolved (columns example_df) = [] \<and>
   (\<exists>out. process_file example_lib (u ''a.csv'') example_df = Inr out \<and>
      map fst (data out) =
        [u ''Debtor Reference'', u ''Transaction Type'', u ''Document Number'',
         u ''Document Date'', u ''Document Balance''])"
  using example_ext example_not_empty example_resolved
    output_has_five_columns [OF example_ext example_not_empty example_resolved, of example_lib]
  by blast

end
